theory Spec2Isabelle
  imports Main
begin

section \<open>JavaScript values\<close>

text \<open>
  The option bag handed to the HTTP client is loosely typed, and the normalizer
  decides by \<^verbatim>\<open>typeof\<close> what it accepts. The values a property can hold are
  modelled by one datatype; numbers are the integral ones (status codes, counters).
\<close>

datatype jsval =
    JUndefined
  | JNull
  | JBool bool
  | JNum int
  | JStr string
  | JArr "jsval list"
  | JObj "(string \<times> jsval) list"

fun typeof :: "jsval \<Rightarrow> string" where
  "typeof JUndefined = ''undefined''"
| "typeof JNull = ''object''"
| "typeof (JBool b) = ''boolean''"
| "typeof (JNum n) = ''number''"
| "typeof (JStr s) = ''string''"
| "typeof (JArr xs) = ''object''"
| "typeof (JObj kvs) = ''object''"

text \<open>Truthiness, as \<^verbatim>\<open>!!v\<close> and the conditions \<^verbatim>\<open>a && b\<close> read it.\<close>

fun truthy :: "jsval \<Rightarrow> bool" where
  "truthy JUndefined = False"
| "truthy JNull = False"
| "truthy (JBool b) = b"
| "truthy (JNum n) = (n \<noteq> 0)"
| "truthy (JStr s) = (s \<noteq> [])"
| "truthy (JArr xs) = True"
| "truthy (JObj kvs) = True"

subsection \<open>String operations\<close>

text \<open>
  \<^verbatim>\<open>String.prototype.toUpperCase\<close> on the characters a \<^typ>\<open>char\<close> can hold. The
  letters a to z go to A to Z. JavaScript also changes some characters above 127: into
  other characters above 127 or, for the sharp s, into SS. No allowed method contains a
  character above 127 or two letters S in a row, so leaving these characters alone
  changes neither which methods are accepted nor any accepted result.
\<close>

definition toUpperCase_char :: "char \<Rightarrow> char" where
  "toUpperCase_char c =
     (case map_of (zip ''abcdefghijklmnopqrstuvwxyz'' ''ABCDEFGHIJKLMNOPQRSTUVWXYZ'') c of
        Some u \<Rightarrow> u
      | None \<Rightarrow> c)"

definition toUpperCase :: "string \<Rightarrow> string" where
  "toUpperCase s = map toUpperCase_char s"

text \<open>\<^verbatim>\<open>s.substr(-1)\<close>: the last character as a string, empty for the empty string.\<close>

definition substr_last :: "string \<Rightarrow> string" where
  "substr_last s = (if s = [] then [] else [last s])"

text \<open>\<^verbatim>\<open>s.slice(0, -1)\<close>: the string without its last character.\<close>

definition slice_but_last :: "string \<Rightarrow> string" where
  "slice_but_last s = butlast s"

text \<open>\<^verbatim>\<open>xs.join(sep)\<close> on an array of strings.\<close>

fun join :: "string \<Rightarrow> string list \<Rightarrow> string" where
  "join sep [] = []"
| "join sep [x] = x"
| "join sep (x # y # ys) = x @ sep @ join sep (y # ys)"

text \<open>The decimal text of a non-negative integer, as a template literal prints it.\<close>

definition digit_char :: "nat \<Rightarrow> char" where
  "digit_char d = ''0123456789'' ! d"

function show_nat :: "nat \<Rightarrow> string" where
  "show_nat n =
     (if n < 10 then [digit_char n]
      else show_nat (n div 10) @ [digit_char (n mod 10)])"
  by pat_completeness auto
termination
  by (relation "measure (\<lambda>n. n)") auto

declare show_nat.simps [simp del]

section \<open>Errors\<close>

text \<open>
  Modelled from the spec: the four classification tags. The client imports
  \<^verbatim>\<open>INVALID_PARAMETER_ERROR_TYPE_V1\<close>, \<^verbatim>\<open>INVALID_PARAMETER_ERROR_TYPE_V2\<close>,
  \<^verbatim>\<open>REQUEST_FAILED_ERROR_TYPE_V1\<close> and \<^verbatim>\<open>REQUEST_FAILED_ERROR_TYPE_V2\<close> from
  \<^verbatim>\<open>./apify_error\<close>; the file of that name under src/ declares only the unversioned
  pair, so the strings themselves are missing. The spec describes two enumerations,
  invalid-parameter and request-failed, each with a v1 and a v2 variant string; they are
  four distinct constructors here. \<open>SERVER_ERROR_TYPE\<close> stands for a type string taken
  from a response body.
\<close>

datatype error_type =
    INVALID_PARAMETER_ERROR_TYPE_V1
  | INVALID_PARAMETER_ERROR_TYPE_V2
  | REQUEST_FAILED_ERROR_TYPE_V1
  | REQUEST_FAILED_ERROR_TYPE_V2
  | SERVER_ERROR_TYPE string

text \<open>A JavaScript exception object: its name and its message.\<close>

datatype js_exn = JsError (exn_name: string) (exn_message: string)

text \<open>
  The \<^verbatim>\<open>error\<close> entry of the details of a request-failed error:
  \<^verbatim>\<open>error && error.message ? error.message : error\<close>.
\<close>

datatype error_info =
    ErrorUndefined
  | ErrorMessage string
  | ErrorObject js_exn

text \<open>
  The details argument of an error: none for the normalizer's errors,
  \<^verbatim>\<open>{ statusCode, url, method }\<close> for an error built from a response, and
  \<^verbatim>\<open>{ url, method, params, hasBody, error, statusCode, iteration }\<close> for a failed
  request. A status code that was never assigned, or assigned \<^verbatim>\<open>null\<close>, is \<open>None\<close>.
\<close>

datatype details =
    NoDetails
  | ResponseDetails (rd_statusCode: "int option") (rd_url: jsval) (rd_method: jsval)
  | RequestDetails (qd_url: jsval) (qd_method: jsval) (qd_params: jsval) (qd_hasBody: bool)
      (qd_error: error_info) (qd_statusCode: "int option") (qd_iteration: nat)

text \<open>
  Modelled from the spec: the class \<^verbatim>\<open>ApifyClientError\<close>. The client imports it from
  \<^verbatim>\<open>./apify_error\<close> and constructs it as
  \<^verbatim>\<open>new ApifyClientError(type, message, details, originalError)\<close>; the file of that
  name under src/ is another version, whose class takes three arguments and has no
  versioned tags. After the spec's StructuredError (a classification tag, a message,
  structured details and an optional wrapped lower-level error) the object keeps its four
  constructor arguments.
\<close>

record apify_client_error =
  type :: error_type
  message :: string
  details :: details
  originalError :: "js_exn option"

section \<open>Call options\<close>

text \<open>
  The option bag after \<^verbatim>\<open>{ ...this.defaultOptions, ...callOptions }\<close>. A property
  that is absent reads as \<^verbatim>\<open>undefined\<close>: \<open>JUndefined\<close> for the loosely typed
  properties, \<open>None\<close> for the tuning knobs (a number, or an array of numbers, when set),
  \<open>False\<close> for the flags, which the client only ever tests for truthiness.
\<close>

record options =
  isApiV1 :: bool
  baseUrl :: jsval
  "method" :: jsval
  authRequired :: bool
  token :: jsval
  expBackoffMillis :: "int option"
  expBackoffMaxRepeats :: "int option"
  retryOnStatusCodes :: "int list option"
  url :: jsval
  json :: bool
  body :: jsval
  params :: jsval
  resolveWithFullResponse :: bool

definition RATE_LIMIT_EXCEEDED_STATUS_CODE :: int where
  "RATE_LIMIT_EXCEEDED_STATUS_CODE = 429"

definition EXP_BACKOFF_MILLIS :: int where
  "EXP_BACKOFF_MILLIS = 500"

definition EXP_BACKOFF_MAX_REPEATS :: int where
  "EXP_BACKOFF_MAX_REPEATS = 8"

definition ALLOWED_HTTP_METHODS :: "string list" where
  "ALLOWED_HTTP_METHODS = [''GET'', ''DELETE'', ''HEAD'', ''POST'', ''PUT'', ''PATCH'']"

subsection \<open>The normalizer\<close>

definition baseUrl_required_message :: string where
  \<open>baseUrl_required_message = ''The "options.baseUrl" parameter of type string is required.''\<close>

definition method_required_message :: string where
  \<open>method_required_message = ''The "options.method" parameter of type string is required.''\<close>

definition method_invalid_message :: "string \<Rightarrow> string" where
  \<open>method_invalid_message m =
     ''The "options.method" parameter is invalid. ''
     @ ''Expected one of '' @ join '', '' ALLOWED_HTTP_METHODS @ '' but got: '' @ m\<close>

definition token_required_message :: string where
  \<open>token_required_message = ''The "options.token" parameter of type string is required.''\<close>

text \<open>
  \<^verbatim>\<open>_validateAndNormalizeOptions(options)\<close>. Each \<^verbatim>\<open>throw\<close> is an \<open>Inl\<close>, in the
  order of the source; the result is the bag with the five normalized properties
  written over it (\<^verbatim>\<open>{ ...options, baseUrl, method, ... }\<close>).
\<close>

definition validateAndNormalizeOptions :: "options \<Rightarrow> apify_client_error + options" where
  "validateAndNormalizeOptions opts =
     (let INVALID_PARAMETER_ERROR_TYPE =
            (if isApiV1 opts then INVALID_PARAMETER_ERROR_TYPE_V1
             else INVALID_PARAMETER_ERROR_TYPE_V2)
      in case baseUrl opts of
           JStr b \<Rightarrow>
             (let b' = (if substr_last b = ''/'' then slice_but_last b else b)
              in case method opts of
                   JStr m \<Rightarrow>
                     (let m' = toUpperCase m
                      in if m' \<notin> set ALLOWED_HTTP_METHODS then
                           Inl \<lparr>type = INVALID_PARAMETER_ERROR_TYPE_V2,
                                message = method_invalid_message m,
                                details = NoDetails, originalError = None\<rparr>
                         else if authRequired opts \<and> typeof (token opts) \<noteq> ''string'' then
                           Inl \<lparr>type = INVALID_PARAMETER_ERROR_TYPE,
                                message = token_required_message,
                                details = NoDetails, originalError = None\<rparr>
                         else
                           Inr (opts\<lparr>baseUrl := JStr b',
                                     method := JStr m',
                                     expBackoffMillis :=
                                       Some (case expBackoffMillis opts of
                                               None \<Rightarrow> EXP_BACKOFF_MILLIS | Some n \<Rightarrow> n),
                                     expBackoffMaxRepeats :=
                                       Some (case expBackoffMaxRepeats opts of
                                               None \<Rightarrow> EXP_BACKOFF_MAX_REPEATS | Some n \<Rightarrow> n),
                                     retryOnStatusCodes :=
                                       Some (case retryOnStatusCodes opts of
                                               None \<Rightarrow> [RATE_LIMIT_EXCEEDED_STATUS_CODE]
                                             | Some cs \<Rightarrow> cs)\<rparr>))
                 | _ \<Rightarrow>
                     Inl \<lparr>type = INVALID_PARAMETER_ERROR_TYPE,
                          message = method_required_message,
                          details = NoDetails, originalError = None\<rparr>)
         | _ \<Rightarrow>
             Inl \<lparr>type = INVALID_PARAMETER_ERROR_TYPE,
                  message = baseUrl_required_message,
                  details = NoDetails, originalError = None\<rparr>)"

subsection \<open>Merging defaults and per-call options\<close>

text \<open>
  An object literal is the list of the properties it sets. The spread
  \<^verbatim>\<open>{ ...a, ...b }\<close> copies every own property of \<open>b\<close> over \<open>a\<close>, also one
  whose value is \<^verbatim>\<open>undefined\<close>.
\<close>

datatype property =
    Set_isApiV1 bool
  | Set_baseUrl jsval
  | Set_method jsval
  | Set_authRequired bool
  | Set_token jsval
  | Set_expBackoffMillis "int option"
  | Set_expBackoffMaxRepeats "int option"
  | Set_retryOnStatusCodes "int list option"
  | Set_url jsval
  | Set_json bool
  | Set_body jsval
  | Set_params jsval
  | Set_resolveWithFullResponse bool

fun assign :: "property \<Rightarrow> options \<Rightarrow> options" where
  "assign (Set_isApiV1 v) opts = opts\<lparr>isApiV1 := v\<rparr>"
| "assign (Set_baseUrl v) opts = opts\<lparr>baseUrl := v\<rparr>"
| "assign (Set_method v) opts = opts\<lparr>method := v\<rparr>"
| "assign (Set_authRequired v) opts = opts\<lparr>authRequired := v\<rparr>"
| "assign (Set_token v) opts = opts\<lparr>token := v\<rparr>"
| "assign (Set_expBackoffMillis v) opts = opts\<lparr>expBackoffMillis := v\<rparr>"
| "assign (Set_expBackoffMaxRepeats v) opts = opts\<lparr>expBackoffMaxRepeats := v\<rparr>"
| "assign (Set_retryOnStatusCodes v) opts = opts\<lparr>retryOnStatusCodes := v\<rparr>"
| "assign (Set_url v) opts = opts\<lparr>url := v\<rparr>"
| "assign (Set_json v) opts = opts\<lparr>json := v\<rparr>"
| "assign (Set_body v) opts = opts\<lparr>body := v\<rparr>"
| "assign (Set_params v) opts = opts\<lparr>params := v\<rparr>"
| "assign (Set_resolveWithFullResponse v) opts = opts\<lparr>resolveWithFullResponse := v\<rparr>"

definition spread :: "options \<Rightarrow> property list \<Rightarrow> options" where
  "spread opts props = fold assign props opts"

definition empty_options :: options where
  "empty_options =
     \<lparr>isApiV1 = False, baseUrl = JUndefined, method = JUndefined, authRequired = False,
      token = JUndefined, expBackoffMillis = None, expBackoffMaxRepeats = None,
      retryOnStatusCodes = None, url = JUndefined, json = False, body = JUndefined,
      params = JUndefined, resolveWithFullResponse = False\<rparr>"

section \<open>The request engine\<close>

subsection \<open>Call statistics\<close>

text \<open>
  \<^verbatim>\<open>this.stats\<close>: two counters and the array \<^verbatim>\<open>rateLimitErrors\<close>, read here as a
  map from array index to count; an index that holds no number is \<open>None\<close>.
\<close>

record stats =
  calls :: nat
  requests :: nat
  rateLimitErrors :: "nat \<rightharpoonup> nat"

text \<open>
  Lines 165 to 166: increment the entry when it is a number, set it to 1 otherwise.
  (The guard \<^verbatim>\<open>&& this.stats\<close> of line 163 is true: the constructor accepts only
  an object, and line 131 has already used it.)
\<close>

definition countRateLimitError :: "stats \<Rightarrow> nat \<Rightarrow> stats" where
  "countRateLimitError st i =
     st\<lparr>rateLimitErrors :=
          (rateLimitErrors st)(i \<mapsto> (case rateLimitErrors st i of Some n \<Rightarrow> n + 1 | None \<Rightarrow> 1))\<rparr>"

subsection \<open>One exchange\<close>

text \<open>
  What \<^verbatim>\<open>axiosResponse.request.res\<close> is when it exists: an incoming message, of which
  the client reads the status code (\<open>None\<close> when the property is missing).
\<close>

datatype incoming_message = IncomingMessage (statusCode: "int option")

text \<open>
  The outcome of \<^verbatim>\<open>await axios.request(axiosConfig)\<close>: a rejection, or a response
  with \<^verbatim>\<open>request.res\<close> (possibly undefined) and the unparsed \<^verbatim>\<open>data\<close>. With
  \<^verbatim>\<open>validateStatus: null\<close> no status code makes axios reject.
\<close>

datatype axios_result =
    AxiosReject js_exn
  | AxiosResolve "incoming_message option" string

text \<open>What a call resolves with: the response with its body, or the body alone.\<close>

datatype call_value =
    FullResponse incoming_message jsval
  | BodyOnly jsval

text \<open>What a call rejects with.\<close>

datatype failure =
    ClientError apify_client_error
  | Exception js_exn

text \<open>
  What one attempt throws: a \<^verbatim>\<open>RetryableError\<close> wrapping the request-failed error,
  or anything else.
\<close>

datatype thrown =
    RetryableError apify_client_error
  | Thrown failure

text \<open>
  What the client takes from outside. \<^verbatim>\<open>JSON.parse\<close> and the text of a
  \<^verbatim>\<open>TypeError\<close> belong to the JavaScript runtime.
  \<^verbatim>\<open>newApifyClientErrorFromResponse\<close> is imported from
  \<^verbatim>\<open>./utils\<close>, which is not under src/: it is a parameter, and the theorems hold for
  every function in its place. \<open>paramError\<close> is the error with which the retry driver
  rejects a knob that is not a number.
\<close>

record env =
  JSON_parse :: "string \<Rightarrow> js_exn + jsval"
  typeError :: "string \<Rightarrow> js_exn"
  paramError :: "string \<Rightarrow> js_exn"
  newApifyClientErrorFromResponse :: "jsval \<Rightarrow> bool \<Rightarrow> details \<Rightarrow> apify_client_error"

text \<open>
  The \<^verbatim>\<open>try\<close> block of \<^verbatim>\<open>makeRequest\<close> (lines 142 to 161) after the counter: it
  returns, or it leaves the status code, the body of the response (when there is a
  response) and the caught error to the code after it.
\<close>

datatype try_outcome =
    Returned call_value
  | Completed "int option" "jsval option" "js_exn option"

definition tryRequest :: "env \<Rightarrow> options \<Rightarrow> axios_result \<Rightarrow> try_outcome" where
  "tryRequest env opts r =
     (case r of
        AxiosReject err \<Rightarrow> Completed None None (Some err)
      | AxiosResolve None d \<Rightarrow> Completed None None (Some (typeError env ''body''))
      | AxiosResolve (Some response) d \<Rightarrow>
          (let sc = statusCode response
           in case (if json opts \<and> truthy (JStr d) then JSON_parse env d else Inr (JStr d)) of
                Inl err \<Rightarrow> Completed sc (Some (JStr d)) (Some err)
              | Inr b \<Rightarrow>
                  if (case sc of None \<Rightarrow> True | Some s \<Rightarrow> s = 0 \<or> s < 300) then
                    Returned (if resolveWithFullResponse opts then FullResponse response b
                              else BodyOnly b)
                  else Completed sc (Some b) None))"

text \<open>Lines 179 to 198: the request-failed error of attempt \<open>iteration\<close>.\<close>

definition requestFailedError ::
    "options \<Rightarrow> nat \<Rightarrow> int option \<Rightarrow> js_exn option \<Rightarrow> apify_client_error" where
  "requestFailedError opts iteration sc error =
     \<lparr>type = (if isApiV1 opts then REQUEST_FAILED_ERROR_TYPE_V1
              else REQUEST_FAILED_ERROR_TYPE_V2),
      message = (if iteration = 1 then ''API request failed on the first try''
                 else ''API request failed on retry number '' @ show_nat (iteration - 1)),
      details = RequestDetails (url opts) (method opts) (params opts) (truthy (body opts))
                  (case error of
                     None \<Rightarrow> ErrorUndefined
                   | Some e \<Rightarrow> if exn_message e \<noteq> [] then ErrorMessage (exn_message e)
                              else ErrorObject e)
                  sc iteration,
      originalError = error\<rparr>"

text \<open>
  Lines 171 to 175: whether the attempt is rejected at once. Reading
  \<^verbatim>\<open>retryOnStatusCodes.includes\<close> throws when the property is undefined, which the
  normalizer excludes.
\<close>

definition terminalStatus :: "env \<Rightarrow> options \<Rightarrow> int option \<Rightarrow> js_exn + bool" where
  "terminalStatus env opts sc =
     (case sc of
        None \<Rightarrow> Inr False
      | Some s \<Rightarrow>
          if s \<ge> 300 \<and> s < 500 then
            (case retryOnStatusCodes opts of
               None \<Rightarrow> Inl (typeError env ''includes'')
             | Some cs \<Rightarrow> Inr (s \<notin> set cs))
          else Inr False)"

text \<open>
  \<^verbatim>\<open>makeRequest\<close>, a closure over \<^verbatim>\<open>iteration\<close> and \<^verbatim>\<open>this.stats\<close>: the state it
  reads and writes is the pair of both. \<open>net k\<close> is what the exchange of attempt \<open>k\<close>
  yields.
\<close>

definition makeRequest ::
    "env \<Rightarrow> (nat \<Rightarrow> axios_result) \<Rightarrow> options \<Rightarrow> nat \<times> stats
       \<Rightarrow> (thrown + call_value) \<times> (nat \<times> stats)" where
  "makeRequest env net opts s =
     (let iteration = fst s + 1;
          st = (snd s)\<lparr>requests := requests (snd s) + 1\<rparr>
      in case tryRequest env opts (net iteration) of
           Returned v \<Rightarrow> (Inr v, (iteration, st))
         | Completed sc rbody error \<Rightarrow>
             (let st' = (if sc = Some RATE_LIMIT_EXCEEDED_STATUS_CODE
                         then countRateLimitError st (iteration - 1) else st)
              in case terminalStatus env opts sc of
                   Inl e \<Rightarrow> (Inl (Thrown (Exception e)), (iteration, st'))
                 | Inr True \<Rightarrow>
                     (case rbody of
                        None \<Rightarrow> (Inl (Thrown (Exception (typeError env ''body''))), (iteration, st'))
                      | Some b \<Rightarrow>
                          (Inl (Thrown (ClientError
                             (newApifyClientErrorFromResponse env b (isApiV1 opts)
                                (ResponseDetails sc (url opts) (method opts))))),
                           (iteration, st')))
                 | Inr False \<Rightarrow>
                     (Inl (RetryableError (requestFailedError opts iteration sc error)),
                      (iteration, st'))))"

subsection \<open>The retry driver\<close>

text \<open>
  Modelled from the spec: \<^verbatim>\<open>retryWithExpBackoff\<close> is imported from the package
  \<^verbatim>\<open>apify-shared/exponential_backoff\<close>, which is not under src/. After the spec's
  Backoff Scheduler: each iteration runs one attempt; a success resolves the call; an
  error that is not retryable fails it at once; a retryable error fails it with the
  wrapped error when the ordinal has reached the maximum of attempts, and otherwise leads
  to the next attempt after the delay. The delay itself is time and is not modelled;
  \<open>i\<close> is the zero-based loop index, so the ordinal of the running attempt is \<open>i + 1\<close>;
  \<open>maxRepeats\<close> and \<open>millis\<close> are \<^verbatim>\<open>expBackoffMaxRepeats\<close> and \<^verbatim>\<open>expBackoffMillis\<close>.
\<close>

function retryWithExpBackoff ::
    "('s \<Rightarrow> (thrown + 'v) \<times> 's) \<Rightarrow> int \<Rightarrow> int \<Rightarrow> int \<Rightarrow> 's \<Rightarrow> (failure + 'v) \<times> 's" where
  "retryWithExpBackoff func maxRepeats millis i s =
     (case func s of
        (Inr v, s') \<Rightarrow> (Inr v, s')
      | (Inl (Thrown e), s') \<Rightarrow> (Inl e, s')
      | (Inl (RetryableError e), s') \<Rightarrow>
          if i \<ge> maxRepeats - 1 then (Inl (ClientError e), s')
          else retryWithExpBackoff func maxRepeats millis (i + 1) s')"
  by pat_completeness auto
termination
  by (relation "measure (\<lambda>(func, maxRepeats, millis, i, s).
                   nat (maxRepeats - 1 - i))") auto

declare retryWithExpBackoff.simps [simp del]

subsection \<open>The call\<close>

text \<open>
  \<^verbatim>\<open>_call(options)\<close>: count the call, then drive \<^verbatim>\<open>makeRequest\<close> from iteration 0.
  The configuration that \<^verbatim>\<open>_getAxiosConfig\<close> builds decides what is sent; what comes
  back is the parameter \<open>net\<close>, about which nothing is assumed.
\<close>

definition call_inner ::
    "env \<Rightarrow> (nat \<Rightarrow> axios_result) \<Rightarrow> stats \<Rightarrow> options \<Rightarrow> (failure + call_value) \<times> stats" where
  "call_inner env net st opts =
     (let st1 = st\<lparr>calls := calls st + 1\<rparr>
      in case expBackoffMillis opts of
           None \<Rightarrow> (Inl (Exception (paramError env ''expBackoffMillis'')), st1)
         | Some millis \<Rightarrow>
             (case expBackoffMaxRepeats opts of
                None \<Rightarrow> (Inl (Exception (paramError env ''expBackoffMaxRepeats'')), st1)
              | Some maxRepeats \<Rightarrow>
                  (case retryWithExpBackoff (makeRequest env net opts) maxRepeats millis 0 (0, st1) of
                     (r, s') \<Rightarrow> (r, snd s'))))"

text \<open>
  \<^verbatim>\<open>call(callOptions)\<close>: merge, normalize, run. The function is \<^verbatim>\<open>async\<close>, so the
  normalizer's exception rejects the returned promise.
\<close>

definition call ::
    "env \<Rightarrow> (nat \<Rightarrow> axios_result) \<Rightarrow> stats \<Rightarrow> property list \<Rightarrow> property list
       \<Rightarrow> (failure + call_value) \<times> stats" where
  "call env net st defaultOptions callOptions =
     (let mergedOptions = spread (spread empty_options defaultOptions) callOptions
      in case validateAndNormalizeOptions mergedOptions of
           Inl e \<Rightarrow> (Inl (ClientError e), st)
         | Inr normalizedOptions \<Rightarrow> call_inner env net st normalizedOptions)"

section \<open>Sample inputs\<close>

text \<open>A descriptor the normalizer accepts and leaves as it is.\<close>

definition sample_options :: options where
  "sample_options =
     \<lparr>isApiV1 = False, baseUrl = JStr ''https://api.apify.com'', method = JStr ''GET'',
      authRequired = False, token = JUndefined, expBackoffMillis = Some 500,
      expBackoffMaxRepeats = Some 3, retryOnStatusCodes = Some [429],
      url = JStr ''/v2/acts'', json = True, body = JUndefined, params = JUndefined,
      resolveWithFullResponse = False\<rparr>"

text \<open>Fresh statistics: nothing counted, no entry in \<^verbatim>\<open>rateLimitErrors\<close>.\<close>

definition sample_stats :: stats where
  "sample_stats = \<lparr>calls = 0, requests = 0, rateLimitErrors = Map.empty\<rparr>"

text \<open>
  A stand-in for \<^verbatim>\<open>JSON.parse\<close> that agrees with it on the two bodies used below:
  \<^verbatim>\<open>{}\<close> is the empty object, and \<^verbatim>\<open><html>\<close> is no JSON text.
\<close>

definition sample_JSON_parse :: "string \<Rightarrow> js_exn + jsval" where
  "sample_JSON_parse s =
     (if s = ''{}'' then Inr (JObj [])
      else Inl (JsError ''SyntaxError'' ''Unexpected token < in JSON at position 0''))"

definition sample_typeError :: "string \<Rightarrow> js_exn" where
  "sample_typeError p = JsError ''TypeError'' (''Cannot access property '' @ p @ '' of undefined'')"

definition sample_paramError :: "string \<Rightarrow> js_exn" where
  "sample_paramError p = JsError ''Error'' (''Parameter '' @ p @ '' should be a number.'')"

text \<open>
  A stand-in for \<^verbatim>\<open>newApifyClientErrorFromResponse\<close>: a request-failed error of the
  given API version with the message \<^verbatim>\<open>REQUEST_FAILED_ERROR_MESSAGE\<close> and the details
  it is handed.
\<close>

definition sample_errorFromResponse :: "jsval \<Rightarrow> bool \<Rightarrow> details \<Rightarrow> apify_client_error" where
  "sample_errorFromResponse b v1 d =
     \<lparr>type = (if v1 then REQUEST_FAILED_ERROR_TYPE_V1 else REQUEST_FAILED_ERROR_TYPE_V2),
      message = ''Server request failed.'', details = d, originalError = None\<rparr>"

definition sample_env :: env where
  "sample_env =
     \<lparr>JSON_parse = sample_JSON_parse, typeError = sample_typeError,
      paramError = sample_paramError,
      newApifyClientErrorFromResponse = sample_errorFromResponse\<rparr>"

text \<open>A server that answers every attempt with the same status code and body.\<close>

definition always_status :: "int option \<Rightarrow> string \<Rightarrow> nat \<Rightarrow> axios_result" where
  "always_status sc d k = AxiosResolve (Some (IncomingMessage sc)) d"

text \<open>A network on which every exchange fails with the same transport error.\<close>

definition always_reject :: "js_exn \<Rightarrow> nat \<Rightarrow> axios_result" where
  "always_reject err k = AxiosReject err"

section \<open>Derived notions\<close>

text \<open>
  An attempt takes the retry path when its \<^verbatim>\<open>try\<close> block does not return and the
  check of lines 171 to 175 does not reject it.
\<close>

definition attemptIsRetryable :: "env \<Rightarrow> options \<Rightarrow> axios_result \<Rightarrow> bool" where
  "attemptIsRetryable env opts r =
     (case tryRequest env opts r of
        Returned v \<Rightarrow> False
      | Completed sc rbody error \<Rightarrow> terminalStatus env opts sc = Inr False)"

text \<open>
  The statistics after an attempt that did not return, with status code \<open>sc\<close> and
  \<open>it\<close> attempts before it (lines 143 and 163 to 167).
\<close>

definition statsAfterAttempt :: "stats \<Rightarrow> nat \<Rightarrow> int option \<Rightarrow> stats" where
  "statsAfterAttempt st it sc =
     (if sc = Some 429 then countRateLimitError (st\<lparr>requests := requests st + 1\<rparr>) it
      else st\<lparr>requests := requests st + 1\<rparr>)"

section \<open>Properties of the normalizer\<close>

lemma typeof_string_iff: "typeof v = ''string'' \<longleftrightarrow> (\<exists>s. v = JStr s)"
  by (cases v) auto

lemma toUpperCase_allowed: "x \<in> set ALLOWED_HTTP_METHODS \<Longrightarrow> toUpperCase x = x"
  by (auto simp: ALLOWED_HTTP_METHODS_def toUpperCase_def toUpperCase_char_def)

lemma method_invalid_message_text:
  \<open>method_invalid_message m =
     ''The "options.method" parameter is invalid. Expected one of GET, DELETE, HEAD, POST, PUT, PATCH but got: '' @ m\<close>
  by (simp add: method_invalid_message_def ALLOWED_HTTP_METHODS_def)

lemma validate_error_type:
  "validateAndNormalizeOptions opts = Inl e \<Longrightarrow>
     type e = INVALID_PARAMETER_ERROR_TYPE_V1 \<or> type e = INVALID_PARAMETER_ERROR_TYPE_V2"
  by (auto simp: validateAndNormalizeOptions_def Let_def split: jsval.splits if_splits)

text \<open>
  Every descriptor the normalizer returns carries the three tuning knobs, so
  \<^verbatim>\<open>_call\<close>, which \<^verbatim>\<open>call\<close> only runs on such a descriptor, always finds them.
\<close>

lemma validate_sets_knobs:
  assumes "validateAndNormalizeOptions opts = Inr opts'"
  shows "\<exists>millis maxRepeats cs. expBackoffMillis opts' = Some millis
           \<and> expBackoffMaxRepeats opts' = Some maxRepeats \<and> retryOnStatusCodes opts' = Some cs"
  using assms
  by (auto simp: validateAndNormalizeOptions_def Let_def split: jsval.splits if_splits)

subsection \<open>The method check\<close>

text \<open>
  C5: the method check, which a descriptor reaches when its base URL is a string. Every
  method string whose upper-cased form is outside GET, DELETE, HEAD, POST, PUT, PATCH
  makes the normalizer fail with an invalid-parameter error whose message lists these
  six methods and the method given; every method string whose upper-cased form is in
  the set passes the method check: the only error the normalizer can still raise is the
  one of the token check, it succeeds when the token check passes, and the normalized
  descriptor carries the upper-cased method.
\<close>

theorem C5_method_check:
  assumes "baseUrl opts = JStr b" and "method opts = JStr m"
  shows \<open>(toUpperCase m \<notin> set ALLOWED_HTTP_METHODS \<longrightarrow>
            validateAndNormalizeOptions opts
              = Inl \<lparr>type = INVALID_PARAMETER_ERROR_TYPE_V2,
                     message = ''The "options.method" parameter is invalid. Expected one of GET, DELETE, HEAD, POST, PUT, PATCH but got: '' @ m,
                     details = NoDetails, originalError = None\<rparr>)
       \<and> (toUpperCase m \<in> set ALLOWED_HTTP_METHODS \<longrightarrow>
            (\<forall>e. validateAndNormalizeOptions opts = Inl e \<longrightarrow> message e = token_required_message)
          \<and> (\<forall>opts'. validateAndNormalizeOptions opts = Inr opts' \<longrightarrow>
                 method opts' = JStr (toUpperCase m))
          \<and> (\<not> (authRequired opts \<and> typeof (token opts) \<noteq> ''string'') \<longrightarrow>
                 (\<exists>opts'. validateAndNormalizeOptions opts = Inr opts')))\<close>
  using assms
  by (auto simp: validateAndNormalizeOptions_def Let_def method_invalid_message_text)

theorem C5_method_check_witness:
  \<open>validateAndNormalizeOptions (sample_options\<lparr>method := JStr ''bogus''\<rparr>)
     = Inl \<lparr>type = INVALID_PARAMETER_ERROR_TYPE_V2,
            message = ''The "options.method" parameter is invalid. Expected one of GET, DELETE, HEAD, POST, PUT, PATCH but got: bogus'',
            details = NoDetails, originalError = None\<rparr>
   \<and> (\<exists>opts'. validateAndNormalizeOptions (sample_options\<lparr>method := JStr ''pOst''\<rparr>) = Inr opts'
         \<and> method opts' = JStr ''POST'')\<close>
proof -
  have up1: "toUpperCase ''bogus'' \<notin> set ALLOWED_HTTP_METHODS"
    by (simp add: ALLOWED_HTTP_METHODS_def toUpperCase_def toUpperCase_char_def)
  have up2: "toUpperCase ''pOst'' = ''POST''"
    by (simp add: toUpperCase_def toUpperCase_char_def)
  have in2: "''POST'' \<in> set ALLOWED_HTTP_METHODS"
    by (simp add: ALLOWED_HTTP_METHODS_def)
  have a: \<open>validateAndNormalizeOptions (sample_options\<lparr>method := JStr ''bogus''\<rparr>)
     = Inl \<lparr>type = INVALID_PARAMETER_ERROR_TYPE_V2,
            message = ''The "options.method" parameter is invalid. Expected one of GET, DELETE, HEAD, POST, PUT, PATCH but got: '' @ ''bogus'',
            details = NoDetails, originalError = None\<rparr>\<close>
    using C5_method_check [of "sample_options\<lparr>method := JStr ''bogus''\<rparr>"
        "''https://api.apify.com''" "''bogus''"] up1
    by (simp add: sample_options_def)
  have b: "(\<exists>opts'. validateAndNormalizeOptions (sample_options\<lparr>method := JStr ''pOst''\<rparr>) = Inr opts')
     \<and> (\<forall>opts'. validateAndNormalizeOptions (sample_options\<lparr>method := JStr ''pOst''\<rparr>) = Inr opts' \<longrightarrow>
                 method opts' = JStr ''POST'')"
    using C5_method_check [of "sample_options\<lparr>method := JStr ''pOst''\<rparr>"
        "''https://api.apify.com''" "''pOst''"] up2 in2
    by (simp add: sample_options_def)
  from a b show ?thesis by auto
qed

subsection \<open>The token check\<close>

text \<open>
  C6, as stated, at a descriptor that requires the credential and carries the empty
  string as token: the normalizer accepts it.
\<close>

theorem C6_empty_token_accepted_counterexample:
  "validateAndNormalizeOptions (sample_options\<lparr>authRequired := True, token := JStr ''''\<rparr>)
     = Inr (sample_options\<lparr>authRequired := True, token := JStr ''''\<rparr>)"
  by (simp add: validateAndNormalizeOptions_def sample_options_def ALLOWED_HTTP_METHODS_def
        toUpperCase_def toUpperCase_char_def substr_last_def)

text \<open>
  C6, amended: for every descriptor that marks the credential as required, the normalizer
  fails with an invalid-parameter error whenever the token is not a string (missing or
  of another type), and that error is the one of the token check, tagged by the API
  version, when base URL and method are valid; when the token is a string, empty or not,
  the token check passes: no error of the normalizer is the token error, and the
  normalizer succeeds, keeping the token, when base URL and method are valid.
\<close>

theorem C6_token_check:
  assumes "authRequired opts"
  shows "(typeof (token opts) \<noteq> ''string'' \<longrightarrow>
            (\<exists>e. validateAndNormalizeOptions opts = Inl e
                \<and> (type e = INVALID_PARAMETER_ERROR_TYPE_V1 \<or> type e = INVALID_PARAMETER_ERROR_TYPE_V2)))
       \<and> (typeof (token opts) \<noteq> ''string'' \<and> typeof (baseUrl opts) = ''string''
            \<and> (\<exists>m. method opts = JStr m \<and> toUpperCase m \<in> set ALLOWED_HTTP_METHODS) \<longrightarrow>
            validateAndNormalizeOptions opts
              = Inl \<lparr>type = (if isApiV1 opts then INVALID_PARAMETER_ERROR_TYPE_V1
                              else INVALID_PARAMETER_ERROR_TYPE_V2),
                     message = token_required_message,
                     details = NoDetails, originalError = None\<rparr>)
       \<and> (typeof (token opts) = ''string'' \<longrightarrow>
            (\<forall>e. validateAndNormalizeOptions opts = Inl e \<longrightarrow> message e \<noteq> token_required_message)
          \<and> (typeof (baseUrl opts) = ''string''
               \<and> (\<exists>m. method opts = JStr m \<and> toUpperCase m \<in> set ALLOWED_HTTP_METHODS) \<longrightarrow>
               (\<exists>opts'. validateAndNormalizeOptions opts = Inr opts' \<and> token opts' = token opts)))"
proof (intro conjI impI)
  assume "typeof (token opts) \<noteq> ''string''"
  with assms show "\<exists>e. validateAndNormalizeOptions opts = Inl e
                \<and> (type e = INVALID_PARAMETER_ERROR_TYPE_V1 \<or> type e = INVALID_PARAMETER_ERROR_TYPE_V2)"
    by (auto simp: validateAndNormalizeOptions_def Let_def split: jsval.splits)
next
  assume "typeof (token opts) \<noteq> ''string'' \<and> typeof (baseUrl opts) = ''string''
            \<and> (\<exists>m. method opts = JStr m \<and> toUpperCase m \<in> set ALLOWED_HTTP_METHODS)"
  with assms show "validateAndNormalizeOptions opts
              = Inl \<lparr>type = (if isApiV1 opts then INVALID_PARAMETER_ERROR_TYPE_V1
                              else INVALID_PARAMETER_ERROR_TYPE_V2),
                     message = token_required_message,
                     details = NoDetails, originalError = None\<rparr>"
    by (auto simp: validateAndNormalizeOptions_def Let_def typeof_string_iff)
next
  assume "typeof (token opts) = ''string''"
  then show "\<forall>e. validateAndNormalizeOptions opts = Inl e \<longrightarrow> message e \<noteq> token_required_message"
    by (auto simp: validateAndNormalizeOptions_def Let_def token_required_message_def
          method_invalid_message_def method_required_message_def baseUrl_required_message_def
          split: jsval.splits if_splits)
next
  assume "typeof (token opts) = ''string''"
     and "typeof (baseUrl opts) = ''string''
               \<and> (\<exists>m. method opts = JStr m \<and> toUpperCase m \<in> set ALLOWED_HTTP_METHODS)"
  then show "\<exists>opts'. validateAndNormalizeOptions opts = Inr opts' \<and> token opts' = token opts"
    by (auto simp: validateAndNormalizeOptions_def Let_def typeof_string_iff)
qed

theorem C6_token_check_witness:
  "validateAndNormalizeOptions (sample_options\<lparr>authRequired := True\<rparr>)
     = Inl \<lparr>type = INVALID_PARAMETER_ERROR_TYPE_V2, message = token_required_message,
            details = NoDetails, originalError = None\<rparr>
   \<and> (\<exists>opts'. validateAndNormalizeOptions
                  (sample_options\<lparr>authRequired := True, token := JStr ''SNjkeiuoeD443lpod68dk''\<rparr>)
                = Inr opts')"
proof -
  have g: "toUpperCase ''GET'' \<in> set ALLOWED_HTTP_METHODS"
    by (simp add: toUpperCase_def toUpperCase_char_def ALLOWED_HTTP_METHODS_def)
  have a: "validateAndNormalizeOptions (sample_options\<lparr>authRequired := True\<rparr>)
     = Inl \<lparr>type = INVALID_PARAMETER_ERROR_TYPE_V2, message = token_required_message,
            details = NoDetails, originalError = None\<rparr>"
    using C6_token_check [of "sample_options\<lparr>authRequired := True\<rparr>"] g
    by (simp add: sample_options_def)
  have b: "\<exists>opts'. validateAndNormalizeOptions
                  (sample_options\<lparr>authRequired := True, token := JStr ''SNjkeiuoeD443lpod68dk''\<rparr>)
                = Inr opts'"
    using C6_token_check [of "sample_options\<lparr>authRequired := True, token := JStr ''SNjkeiuoeD443lpod68dk''\<rparr>"] g
    by (auto simp: sample_options_def)
  from a b show ?thesis by simp
qed

subsection \<open>Idempotence\<close>

text \<open>
  C7, as stated, at a base URL that ends in two slashes: the normalizer removes one of
  them, so its output still ends in a slash, and normalizing the output removes the
  other: the second result differs from the first.
\<close>

theorem C7_two_trailing_slashes_counterexample:
  "validateAndNormalizeOptions (sample_options\<lparr>baseUrl := JStr ''https://api.apify.com//''\<rparr>)
     = Inr (sample_options\<lparr>baseUrl := JStr ''https://api.apify.com/''\<rparr>)
   \<and> validateAndNormalizeOptions (sample_options\<lparr>baseUrl := JStr ''https://api.apify.com/''\<rparr>)
     = Inr (sample_options\<lparr>baseUrl := JStr ''https://api.apify.com''\<rparr>)
   \<and> sample_options\<lparr>baseUrl := JStr ''https://api.apify.com/''\<rparr>
       \<noteq> sample_options\<lparr>baseUrl := JStr ''https://api.apify.com''\<rparr>"
  by (simp add: validateAndNormalizeOptions_def sample_options_def ALLOWED_HTTP_METHODS_def
        toUpperCase_def toUpperCase_char_def substr_last_def slice_but_last_def)

lemma validate_Inr_shape:
  assumes "validateAndNormalizeOptions opts = Inr opts'"
  obtains b m where "baseUrl opts = JStr b" "method opts = JStr m"
    "toUpperCase m \<in> set ALLOWED_HTTP_METHODS"
    "\<not> (authRequired opts \<and> typeof (token opts) \<noteq> ''string'')"
    "opts' = opts\<lparr>baseUrl := JStr (if substr_last b = ''/'' then slice_but_last b else b),
                  method := JStr (toUpperCase m),
                  expBackoffMillis := Some (case expBackoffMillis opts of
                                               None \<Rightarrow> EXP_BACKOFF_MILLIS | Some n \<Rightarrow> n),
                  expBackoffMaxRepeats := Some (case expBackoffMaxRepeats opts of
                                               None \<Rightarrow> EXP_BACKOFF_MAX_REPEATS | Some n \<Rightarrow> n),
                  retryOnStatusCodes := Some (case retryOnStatusCodes opts of
                                               None \<Rightarrow> [RATE_LIMIT_EXCEEDED_STATUS_CODE]
                                             | Some cs \<Rightarrow> cs)\<rparr>"
  using assms
  by (auto simp: validateAndNormalizeOptions_def Let_def split: jsval.splits if_splits)

text \<open>
  C7, amended: for every descriptor accepted by the normalizer whose base URL does not
  end in two slashes, applying the normalizer to its own output yields that output again,
  and the normalized base URL does not end in a slash.
\<close>

theorem C7_idempotent_one_slash:
  assumes "validateAndNormalizeOptions opts = Inr opts'"
      and "baseUrl opts = JStr b"
      and "substr_last b = ''/'' \<longrightarrow> substr_last (slice_but_last b) \<noteq> ''/''"
  shows "validateAndNormalizeOptions opts' = Inr opts'
       \<and> (\<exists>b'. baseUrl opts' = JStr b' \<and> substr_last b' \<noteq> ''/'')"
proof -
  from assms(1) obtain b0 m where sh: "baseUrl opts = JStr b0" "method opts = JStr m"
    "toUpperCase m \<in> set ALLOWED_HTTP_METHODS"
    "\<not> (authRequired opts \<and> typeof (token opts) \<noteq> ''string'')"
    "opts' = opts\<lparr>baseUrl := JStr (if substr_last b0 = ''/'' then slice_but_last b0 else b0),
                  method := JStr (toUpperCase m),
                  expBackoffMillis := Some (case expBackoffMillis opts of
                                               None \<Rightarrow> EXP_BACKOFF_MILLIS | Some n \<Rightarrow> n),
                  expBackoffMaxRepeats := Some (case expBackoffMaxRepeats opts of
                                               None \<Rightarrow> EXP_BACKOFF_MAX_REPEATS | Some n \<Rightarrow> n),
                  retryOnStatusCodes := Some (case retryOnStatusCodes opts of
                                               None \<Rightarrow> [RATE_LIMIT_EXCEEDED_STATUS_CODE]
                                             | Some cs \<Rightarrow> cs)\<rparr>"
    by (rule validate_Inr_shape)
  from sh(1) assms(2) have b0: "b0 = b" by simp
  define b' where "b' = (if substr_last b = ''/'' then slice_but_last b else b)"
  have nb: "substr_last b' \<noteq> ''/''"
    using assms(3) by (auto simp: b'_def)
  have up: "toUpperCase (toUpperCase m) = toUpperCase m"
    using sh(3) by (rule toUpperCase_allowed)
  have "validateAndNormalizeOptions opts' = Inr opts'"
    using sh(3,4) nb up unfolding sh(5) b0 b'_def [symmetric]
    by (simp add: validateAndNormalizeOptions_def Let_def)
  moreover have "baseUrl opts' = JStr b'"
    unfolding sh(5) b0 b'_def by simp
  ultimately show ?thesis using nb by blast
qed

theorem C7_idempotent_one_slash_witness:
  "validateAndNormalizeOptions (sample_options\<lparr>baseUrl := JStr ''https://api.apify.com/'', method := JStr ''get''\<rparr>)
     = Inr sample_options
   \<and> validateAndNormalizeOptions sample_options = Inr sample_options
   \<and> substr_last ''https://api.apify.com'' \<noteq> ''/''"
proof -
  have n: "validateAndNormalizeOptions (sample_options\<lparr>baseUrl := JStr ''https://api.apify.com/'', method := JStr ''get''\<rparr>)
     = Inr sample_options"
    by (simp add: validateAndNormalizeOptions_def sample_options_def ALLOWED_HTTP_METHODS_def
        toUpperCase_def toUpperCase_char_def substr_last_def slice_but_last_def)
  have h: "substr_last ''https://api.apify.com/'' = ''/'' \<longrightarrow>
       substr_last (slice_but_last ''https://api.apify.com/'') \<noteq> ''/''"
    by (simp add: substr_last_def slice_but_last_def)
  have b: "baseUrl (sample_options\<lparr>baseUrl := JStr ''https://api.apify.com/'', method := JStr ''get''\<rparr>)
     = JStr ''https://api.apify.com/''" by simp
  from C7_idempotent_one_slash [OF n b h] n show ?thesis
    by (simp add: substr_last_def)
qed

subsection \<open>The classification tag\<close>

text \<open>
  C8 at a descriptor of the legacy API with the method \<^verbatim>\<open>FOO\<close>: the error of the
  method check carries the tag of the current API, not the legacy one that the flag
  selects for the three other errors.
\<close>

theorem C8_method_error_tag_ignores_isApiV1:
  "validateAndNormalizeOptions (sample_options\<lparr>isApiV1 := True, method := JStr ''FOO''\<rparr>)
     = Inl \<lparr>type = INVALID_PARAMETER_ERROR_TYPE_V2,
            message = method_invalid_message ''FOO'',
            details = NoDetails, originalError = None\<rparr>"
  by (simp add: validateAndNormalizeOptions_def sample_options_def ALLOWED_HTTP_METHODS_def
        toUpperCase_def toUpperCase_char_def)

section \<open>Properties of one attempt and of the retry loop\<close>

lemmas sample_defs =
  sample_options_def sample_stats_def sample_env_def sample_JSON_parse_def
  sample_errorFromResponse_def sample_typeError_def always_status_def

lemma tryRequest_response:
  "tryRequest env opts (AxiosResolve (Some response) d) =
     (case (if json opts \<and> d \<noteq> [] then JSON_parse env d else Inr (JStr d)) of
        Inl err \<Rightarrow> Completed (statusCode response) (Some (JStr d)) (Some err)
      | Inr b \<Rightarrow>
          if (case statusCode response of None \<Rightarrow> True | Some s \<Rightarrow> s < 300) then
            Returned (if resolveWithFullResponse opts then FullResponse response b else BodyOnly b)
          else Completed (statusCode response) (Some b) None)"
  by (auto simp: tryRequest_def Let_def split: sum.splits option.splits)

lemma makeRequest_Returned:
  "tryRequest env opts (net (Suc it)) = Returned v \<Longrightarrow>
   makeRequest env net opts (it, st) = (Inr v, (Suc it, st\<lparr>requests := requests st + 1\<rparr>))"
  by (simp add: makeRequest_def)

lemma makeRequest_Completed:
  "tryRequest env opts (net (Suc it)) = Completed sc rbody error \<Longrightarrow>
   makeRequest env net opts (it, st) =
     (let st' = (if sc = Some 429 then countRateLimitError (st\<lparr>requests := requests st + 1\<rparr>) it
                 else st\<lparr>requests := requests st + 1\<rparr>)
      in case terminalStatus env opts sc of
           Inl e \<Rightarrow> (Inl (Thrown (Exception e)), (Suc it, st'))
         | Inr True \<Rightarrow>
             (case rbody of
                None \<Rightarrow> (Inl (Thrown (Exception (typeError env ''body''))), (Suc it, st'))
              | Some b \<Rightarrow>
                  (Inl (Thrown (ClientError
                     (newApifyClientErrorFromResponse env b (isApiV1 opts)
                        (ResponseDetails sc (url opts) (method opts))))),
                   (Suc it, st')))
         | Inr False \<Rightarrow>
             (Inl (RetryableError (requestFailedError opts (Suc it) sc error)), (Suc it, st')))"
  by (auto simp: makeRequest_def Let_def RATE_LIMIT_EXCEEDED_STATUS_CODE_def
        split: sum.splits bool.splits option.splits)

lemma countRateLimitError_counters [simp]:
  "requests (countRateLimitError st i) = requests st"
  "calls (countRateLimitError st i) = calls st"
  by (simp_all add: countRateLimitError_def)

lemma terminalStatus_Some:
  "retryOnStatusCodes opts = Some cs \<Longrightarrow>
   terminalStatus env opts sc =
     Inr (case sc of None \<Rightarrow> False | Some s \<Rightarrow> 300 \<le> s \<and> s < 500 \<and> s \<notin> set cs)"
  by (auto simp: terminalStatus_def split: option.splits)

lemma statsAfterAttempt_counters [simp]:
  "requests (statsAfterAttempt st it sc) = requests st + 1"
  "calls (statsAfterAttempt st it sc) = calls st"
  by (simp_all add: statsAfterAttempt_def)

lemma makeRequest_terminal:
  assumes "tryRequest env opts (net (Suc it)) = Completed sc (Some b) error"
      and "terminalStatus env opts sc = Inr True"
  shows "makeRequest env net opts (it, st) =
           (Inl (Thrown (ClientError
              (newApifyClientErrorFromResponse env b (isApiV1 opts)
                 (ResponseDetails sc (url opts) (method opts))))),
            (Suc it, statsAfterAttempt st it sc))"
  by (simp add: makeRequest_Completed [where net = net and it = it, OF assms(1)] assms(2) Let_def
        statsAfterAttempt_def)

lemma makeRequest_retryable:
  assumes "tryRequest env opts (net (Suc it)) = Completed sc rbody error"
      and "terminalStatus env opts sc = Inr False"
  shows "makeRequest env net opts (it, st) =
           (Inl (RetryableError (requestFailedError opts (Suc it) sc error)),
            (Suc it, statsAfterAttempt st it sc))"
  by (simp add: makeRequest_Completed [where net = net and it = it, OF assms(1)] assms(2) Let_def
        statsAfterAttempt_def)

lemma retry_Returned:
  "func s = (Inr v, s') \<Longrightarrow> retryWithExpBackoff func maxRepeats millis i s = (Inr v, s')"
  by (subst retryWithExpBackoff.simps) simp

lemma retry_Thrown:
  "func s = (Inl (Thrown e), s') \<Longrightarrow> retryWithExpBackoff func maxRepeats millis i s = (Inl e, s')"
  by (subst retryWithExpBackoff.simps) simp

lemma retry_Retryable_last:
  "func s = (Inl (RetryableError e), s') \<Longrightarrow> i \<ge> maxRepeats - 1 \<Longrightarrow>
   retryWithExpBackoff func maxRepeats millis i s = (Inl (ClientError e), s')"
  by (subst retryWithExpBackoff.simps) simp

lemma retry_Retryable_next:
  "func s = (Inl (RetryableError e), s') \<Longrightarrow> i < maxRepeats - 1 \<Longrightarrow>
   retryWithExpBackoff func maxRepeats millis i s
     = retryWithExpBackoff func maxRepeats millis (i + 1) s'"
  by (subst retryWithExpBackoff.simps) simp

subsection \<open>Terminal status codes\<close>

text \<open>
  C1: for every attempt, whatever the loop index, the iteration counter and the
  statistics before it, whose response has a status code in [300, 500) that is not a
  member of the descriptor's retryable-status set, the driver fails at once with the
  error that \<^verbatim>\<open>newApifyClientErrorFromResponse\<close> builds from the response body (the
  parsed body, or the raw text when it was not parsed) and the details status code, url
  and method; the state it leaves is the one right after this attempt, with exactly one
  more request counted, so no further attempt is made.
\<close>

theorem C1_terminal_status_fails_at_once:
  assumes "net (Suc it) = AxiosResolve (Some response) d"
      and "statusCode response = Some s" and "300 \<le> s" and "s < 500"
      and "retryOnStatusCodes opts = Some cs" and "s \<notin> set cs"
  shows "\<exists>st'. retryWithExpBackoff (makeRequest env net opts) maxRepeats millis i (it, st)
           = (Inl (ClientError
                (newApifyClientErrorFromResponse env
                   (case (if json opts \<and> d \<noteq> [] then JSON_parse env d else Inr (JStr d)) of
                      Inr parsed \<Rightarrow> parsed | Inl err \<Rightarrow> JStr d)
                   (isApiV1 opts)
                   (ResponseDetails (Some s) (url opts) (method opts)))),
              (Suc it, st'))
         \<and> requests st' = requests st + 1 \<and> calls st' = calls st"
proof -
  let ?p = "if json opts \<and> d \<noteq> [] then JSON_parse env d else Inr (JStr d)"
  let ?b = "case ?p of Inr parsed \<Rightarrow> parsed | Inl err \<Rightarrow> JStr d"
  have "\<exists>err. tryRequest env opts (net (Suc it)) = Completed (Some s) (Some ?b) err"
    using assms(1-4) by (cases ?p) (simp_all add: tryRequest_response)
  then obtain err where t: "tryRequest env opts (net (Suc it)) = Completed (Some s) (Some ?b) err" ..
  have ts: "terminalStatus env opts (Some s) = Inr True"
    using assms(3-6) by (simp add: terminalStatus_Some)
  have "retryWithExpBackoff (makeRequest env net opts) maxRepeats millis i (it, st)
          = (Inl (ClientError
                (newApifyClientErrorFromResponse env ?b (isApiV1 opts)
                   (ResponseDetails (Some s) (url opts) (method opts)))),
             (Suc it, statsAfterAttempt st it (Some s)))"
    by (rule retry_Thrown) (rule makeRequest_terminal [where net = net and it = it, OF t ts])
  then show ?thesis by simp
qed

theorem C1_terminal_status_fails_at_once_witness:
  "fst (call_inner sample_env (always_status (Some 404) ''<html>'') sample_stats sample_options)
     = Inl (ClientError
         \<lparr>type = REQUEST_FAILED_ERROR_TYPE_V2, message = ''Server request failed.'',
          details = ResponseDetails (Some 404) (JStr ''/v2/acts'') (JStr ''GET''),
          originalError = None\<rparr>)
   \<and> requests (snd (call_inner sample_env (always_status (Some 404) ''<html>'') sample_stats
                       sample_options)) = 1"
proof -
  have n: "always_status (Some 404) ''<html>'' (Suc 0)
             = AxiosResolve (Some (IncomingMessage (Some 404))) ''<html>''"
    by (simp add: always_status_def)
  have r: "retryOnStatusCodes sample_options = Some [429]"
    by (simp add: sample_options_def)
  from C1_terminal_status_fails_at_once [where env = sample_env and opts = sample_options and maxRepeats = 3
      and millis = 500 and i = 0 and st = "sample_stats\<lparr>calls := 1\<rparr>"
      and net = "always_status (Some 404) ''<html>''" and it = 0 and s = 404, OF n _ _ _ r]
  obtain st' where
    "retryWithExpBackoff (makeRequest sample_env (always_status (Some 404) ''<html>'') sample_options)
        3 500 0 (0, sample_stats\<lparr>calls := 1\<rparr>)
       = (Inl (ClientError
            (newApifyClientErrorFromResponse sample_env
               (case (if json sample_options \<and> ''<html>'' \<noteq> [] then JSON_parse sample_env ''<html>''
                      else Inr (JStr ''<html>'')) of
                  Inr parsed \<Rightarrow> parsed | Inl err \<Rightarrow> JStr ''<html>'')
               (isApiV1 sample_options)
               (ResponseDetails (Some 404) (url sample_options) (method sample_options)))),
          (Suc 0, st'))"
    and "requests st' = requests (sample_stats\<lparr>calls := 1\<rparr>) + 1"
    by auto
  then show ?thesis
    by (simp add: call_inner_def sample_options_def sample_stats_def sample_env_def
          sample_errorFromResponse_def sample_JSON_parse_def)
qed

subsection \<open>Exhausted retries\<close>

lemma attemptIsRetryable_Completed:
  assumes "attemptIsRetryable env opts r"
  obtains sc rbody error where "tryRequest env opts r = Completed sc rbody error"
    and "terminalStatus env opts sc = Inr False"
  using assms by (auto simp: attemptIsRetryable_def split: try_outcome.splits)

lemma retry_exhaust:
  assumes "\<forall>k. it < k \<and> k \<le> it + Suc n \<longrightarrow> attemptIsRetryable env opts (net k)"
      and "maxRepeats - 1 \<le> i + int n"
      and "n = 0 \<or> i + int n - 1 < maxRepeats - 1"
  shows "\<exists>sc rbody error st'.
           tryRequest env opts (net (it + Suc n)) = Completed sc rbody error
         \<and> retryWithExpBackoff (makeRequest env net opts) maxRepeats millis i (it, st)
             = (Inl (ClientError (requestFailedError opts (it + Suc n) sc error)),
                (it + Suc n, st'))
         \<and> requests st' = requests st + Suc n \<and> calls st' = calls st"
  using assms
proof (induction n arbitrary: i it st)
  case 0
  from "0.prems"(1) have "attemptIsRetryable env opts (net (Suc it))" by simp
  then obtain sc rbody error where t: "tryRequest env opts (net (Suc it)) = Completed sc rbody error"
    and ts: "terminalStatus env opts sc = Inr False"
    by (rule attemptIsRetryable_Completed)
  have m: "makeRequest env net opts (it, st)
             = (Inl (RetryableError (requestFailedError opts (Suc it) sc error)),
                (Suc it, statsAfterAttempt st it sc))"
    by (rule makeRequest_retryable [where net = net and it = it, OF t ts])
  from "0.prems"(2) have "i \<ge> maxRepeats - 1" by simp
  with m have "retryWithExpBackoff (makeRequest env net opts) maxRepeats millis i (it, st)
             = (Inl (ClientError (requestFailedError opts (Suc it) sc error)),
                (Suc it, statsAfterAttempt st it sc))"
    by (rule retry_Retryable_last)
  with t show ?case by simp
next
  case (Suc n)
  from Suc.prems(1) have "attemptIsRetryable env opts (net (Suc it))" by simp
  then obtain sc rbody error where t: "tryRequest env opts (net (Suc it)) = Completed sc rbody error"
    and ts: "terminalStatus env opts sc = Inr False"
    by (rule attemptIsRetryable_Completed)
  have m: "makeRequest env net opts (it, st)
             = (Inl (RetryableError (requestFailedError opts (Suc it) sc error)),
                (Suc it, statsAfterAttempt st it sc))"
    by (rule makeRequest_retryable [where net = net and it = it, OF t ts])
  from Suc.prems(3) have lt: "i < maxRepeats - 1" by simp
  from m lt have step: "retryWithExpBackoff (makeRequest env net opts) maxRepeats millis i (it, st)
      = retryWithExpBackoff (makeRequest env net opts) maxRepeats millis (i + 1)
          (Suc it, statsAfterAttempt st it sc)"
    by (rule retry_Retryable_next)
  have p1: "\<forall>k. Suc it < k \<and> k \<le> Suc it + Suc n \<longrightarrow> attemptIsRetryable env opts (net k)"
    using Suc.prems(1) by simp
  have p2: "maxRepeats - 1 \<le> (i + 1) + int n"
    using Suc.prems(2) by simp
  have p3: "n = 0 \<or> (i + 1) + int n - 1 < maxRepeats - 1"
    using Suc.prems(3) by simp
  from Suc.IH [OF p1 p2 p3, of "statsAfterAttempt st it sc"] step
  show ?case by simp
qed

lemma tryRequest_Completed_cause:
  assumes "tryRequest env opts r = Completed sc rbody error"
  shows "error = (case r of
                    AxiosReject err \<Rightarrow> Some err
                  | AxiosResolve None d \<Rightarrow> Some (typeError env ''body'')
                  | AxiosResolve (Some response) d \<Rightarrow>
                      (if json opts \<and> d \<noteq> []
                       then (case JSON_parse env d of Inl perr \<Rightarrow> Some perr | Inr v \<Rightarrow> None)
                       else None))"
    and "sc = (case r of
                 AxiosReject err \<Rightarrow> None
               | AxiosResolve None d \<Rightarrow> None
               | AxiosResolve (Some response) d \<Rightarrow> statusCode response)"
  using assms
  by (auto simp: tryRequest_def Let_def
        split: axios_result.splits option.splits sum.splits if_splits)

lemma attemptIsRetryable_iff:
  assumes "retryOnStatusCodes opts = Some cs"
  shows "attemptIsRetryable env opts r \<longleftrightarrow>
           (case r of
              AxiosReject err \<Rightarrow> True
            | AxiosResolve None d \<Rightarrow> True
            | AxiosResolve (Some response) d \<Rightarrow>
                (case statusCode response of
                   None \<Rightarrow> json opts \<and> d \<noteq> [] \<and> isl (JSON_parse env d)
                 | Some s \<Rightarrow>
                     \<not> (300 \<le> s \<and> s < 500 \<and> s \<notin> set cs)
                     \<and> (300 \<le> s \<or> json opts \<and> d \<noteq> [] \<and> isl (JSON_parse env d))))"
  using assms
  by (auto simp: attemptIsRetryable_def tryRequest_def terminalStatus_def Let_def isl_def
        split: axios_result.splits option.splits sum.splits if_splits)

text \<open>
  C3: when each of the first \<open>N = max 1 expBackoffMaxRepeats\<close> exchanges of a call
  fails in a retryable way (the transport rejects, or there is no response object, or the
  response is not terminal and either has a status code of 300 or more or a body that
  fails to parse), the call makes \<open>N\<close> attempts and fails with a request-failed error
  whose message is \<^verbatim>\<open>API request failed on the first try\<close> when \<open>N = 1\<close> and
  \<^verbatim>\<open>API request failed on retry number\<close> followed by \<open>N - 1\<close> otherwise. The error
  wraps the cause of the last failure: the error with which the transport rejected
  exchange \<open>N\<close>, or the parse error of its body, or the type error of the missing
  response, as the fourth constructor argument and, by its message, in the details;
  when exchange \<open>N\<close> failed by its status code alone there is no error to wrap, and the
  details carry that status code. The call has counted \<open>N\<close> requests and one call.
\<close>

theorem C3_exhausted_message:
  assumes "expBackoffMillis opts = Some millis"
      and "expBackoffMaxRepeats opts = Some maxRepeats"
      and "retryOnStatusCodes opts = Some cs"
      and "N = nat (max 1 maxRepeats)"
      and "\<forall>k. 1 \<le> k \<and> k \<le> N \<longrightarrow>
             (case net k of
                AxiosReject err \<Rightarrow> True
              | AxiosResolve None d \<Rightarrow> True
              | AxiosResolve (Some response) d \<Rightarrow>
                  (case statusCode response of
                     None \<Rightarrow> json opts \<and> d \<noteq> [] \<and> isl (JSON_parse env d)
                   | Some s \<Rightarrow>
                       \<not> (300 \<le> s \<and> s < 500 \<and> s \<notin> set cs)
                       \<and> (300 \<le> s \<or> json opts \<and> d \<noteq> [] \<and> isl (JSON_parse env d))))"
      and "cause = (case net N of
                      AxiosReject err \<Rightarrow> Some err
                    | AxiosResolve None d \<Rightarrow> Some (typeError env ''body'')
                    | AxiosResolve (Some response) d \<Rightarrow>
                        (if json opts \<and> d \<noteq> []
                         then (case JSON_parse env d of Inl perr \<Rightarrow> Some perr | Inr v \<Rightarrow> None)
                         else None))"
      and "status = (case net N of
                       AxiosReject err \<Rightarrow> None
                     | AxiosResolve None d \<Rightarrow> None
                     | AxiosResolve (Some response) d \<Rightarrow> statusCode response)"
  shows "\<exists>st'. call_inner env net st opts
           = (Inl (ClientError
                \<lparr>type = (if isApiV1 opts then REQUEST_FAILED_ERROR_TYPE_V1
                         else REQUEST_FAILED_ERROR_TYPE_V2),
                 message = (if N = 1 then ''API request failed on the first try''
                            else ''API request failed on retry number '' @ show_nat (N - 1)),
                 details = RequestDetails (url opts) (method opts) (params opts)
                             (truthy (body opts))
                             (case cause of
                                None \<Rightarrow> ErrorUndefined
                              | Some e \<Rightarrow> if exn_message e \<noteq> [] then ErrorMessage (exn_message e)
                                         else ErrorObject e)
                             status N,
                 originalError = cause\<rparr>),
              st')
         \<and> requests st' = requests st + N \<and> calls st' = calls st + 1"
proof -
  from assms(4) have "0 < N" by simp
  then obtain n where n: "N = Suc n"
    using gr0_implies_Suc by blast
  have r: "\<forall>k. 1 \<le> k \<and> k \<le> N \<longrightarrow> attemptIsRetryable env opts (net k)"
    using assms(5) by (simp add: attemptIsRetryable_iff [OF assms(3)])
  have p1: "\<forall>k. 0 < k \<and> k \<le> 0 + Suc n \<longrightarrow> attemptIsRetryable env opts (net k)"
    using r n by simp
  have p2: "maxRepeats - 1 \<le> 0 + int n"
    using assms(4) n by linarith
  have p3: "n = 0 \<or> 0 + int n - 1 < maxRepeats - 1"
    using assms(4) n by linarith
  from retry_exhaust [OF p1 p2 p3, of millis "st\<lparr>calls := calls st + 1\<rparr>"]
  obtain sc rbody error st' where
      t: "tryRequest env opts (net N) = Completed sc rbody error"
    and l: "retryWithExpBackoff (makeRequest env net opts) maxRepeats millis 0
              (0, st\<lparr>calls := calls st + 1\<rparr>)
            = (Inl (ClientError (requestFailedError opts N sc error)), (N, st'))"
    and c: "requests st' = requests st + N" "calls st' = calls st + 1"
    unfolding n by auto
  have e: "error = cause" and s: "sc = status"
    using tryRequest_Completed_cause [OF t] assms(6,7) by simp_all
  have "call_inner env net st opts
          = (Inl (ClientError (requestFailedError opts N status cause)), st')"
    using assms(1,2) l e s by (simp add: call_inner_def)
  with c show ?thesis
    by (auto simp: requestFailedError_def)
qed

theorem C3_exhausted_message_witness:
  "fst (call_inner sample_env (always_reject (JsError ''Error'' ''read ECONNRESET''))
          sample_stats sample_options)
     = Inl (ClientError
         \<lparr>type = REQUEST_FAILED_ERROR_TYPE_V2,
          message = ''API request failed on retry number 2'',
          details = RequestDetails (JStr ''/v2/acts'') (JStr ''GET'') JUndefined False
                      (ErrorMessage ''read ECONNRESET'') None 3,
          originalError = Some (JsError ''Error'' ''read ECONNRESET'')\<rparr>)
   \<and> requests (snd (call_inner sample_env (always_reject (JsError ''Error'' ''read ECONNRESET''))
                       sample_stats sample_options)) = 3
   \<and> fst (call_inner sample_env (always_status (Some 429) ''{}'') sample_stats sample_options)
     = Inl (ClientError
         \<lparr>type = REQUEST_FAILED_ERROR_TYPE_V2,
          message = ''API request failed on retry number 2'',
          details = RequestDetails (JStr ''/v2/acts'') (JStr ''GET'') JUndefined False
                      ErrorUndefined (Some 429) 3,
          originalError = None\<rparr>)
   \<and> requests (snd (call_inner sample_env (always_status (Some 429) ''{}'') sample_stats
                       sample_options)) = 3"
proof -
  have h1: "expBackoffMillis sample_options = Some 500"
    and h2: "expBackoffMaxRepeats sample_options = Some 3"
    and h3: "retryOnStatusCodes sample_options = Some [429]"
    by (simp_all add: sample_options_def)
  have h4: "(3::nat) = nat (max 1 3)" by simp
  have sn: "show_nat 2 = ''2''"
    by (simp add: show_nat.simps digit_char_def)
  have a: "\<exists>st'. call_inner sample_env (always_reject (JsError ''Error'' ''read ECONNRESET''))
                   sample_stats sample_options
     = (Inl (ClientError
         \<lparr>type = REQUEST_FAILED_ERROR_TYPE_V2,
          message = ''API request failed on retry number 2'',
          details = RequestDetails (JStr ''/v2/acts'') (JStr ''GET'') JUndefined False
                      (ErrorMessage ''read ECONNRESET'') None 3,
          originalError = Some (JsError ''Error'' ''read ECONNRESET'')\<rparr>), st')
     \<and> requests st' = 3"
    using C3_exhausted_message [where env = sample_env
        and net = "always_reject (JsError ''Error'' ''read ECONNRESET'')"
        and st = sample_stats and opts = sample_options and N = 3
        and cause = "Some (JsError ''Error'' ''read ECONNRESET'')" and status = None,
        OF h1 h2 h3 h4] sn
    by (auto simp: always_reject_def sample_options_def sample_stats_def)
  have b: "\<exists>st'. call_inner sample_env (always_status (Some 429) ''{}'') sample_stats sample_options
     = (Inl (ClientError
         \<lparr>type = REQUEST_FAILED_ERROR_TYPE_V2,
          message = ''API request failed on retry number 2'',
          details = RequestDetails (JStr ''/v2/acts'') (JStr ''GET'') JUndefined False
                      ErrorUndefined (Some 429) 3,
          originalError = None\<rparr>), st')
     \<and> requests st' = 3"
    using C3_exhausted_message [where env = sample_env and net = "always_status (Some 429) ''{}''"
        and st = sample_stats and opts = sample_options and N = 3
        and cause = None and status = "Some 429", OF h1 h2 h3 h4] sn
    by (auto simp: always_status_def sample_options_def sample_stats_def sample_env_def
          sample_JSON_parse_def)
  from a b show ?thesis by auto
qed

subsection \<open>Counting rate-limit responses\<close>

text \<open>
  C4: for every attempt whose response has status code 429, whatever the descriptor (so
  whether or not 429 is in its retryable-status set), the entry of
  \<^verbatim>\<open>rateLimitErrors\<close> at index \<^verbatim>\<open>iteration - 1\<close>, the slot of this attempt's
  1-based ordinal, is incremented, or set to 1 when it held no number; no other entry
  changes.
\<close>

theorem C4_rate_limit_counted:
  assumes "net (Suc it) = AxiosResolve (Some response) d"
      and "statusCode response = Some 429"
  shows "rateLimitErrors (snd (snd (makeRequest env net opts (it, st)))) (Suc it - 1)
           = Some (case rateLimitErrors st (Suc it - 1) of Some n \<Rightarrow> n + 1 | None \<Rightarrow> 1)
       \<and> (\<forall>j. j \<noteq> Suc it - 1 \<longrightarrow>
             rateLimitErrors (snd (snd (makeRequest env net opts (it, st)))) j
               = rateLimitErrors st j)"
proof -
  let ?p = "if json opts \<and> d \<noteq> [] then JSON_parse env d else Inr (JStr d)"
  have "\<exists>rbody error. tryRequest env opts (net (Suc it)) = Completed (Some 429) rbody error"
    using assms by (cases ?p) (simp_all add: tryRequest_response)
  then obtain rbody error where
    t: "tryRequest env opts (net (Suc it)) = Completed (Some 429) rbody error" by blast
  have "snd (snd (makeRequest env net opts (it, st))) = statsAfterAttempt st it (Some 429)"
    by (simp add: makeRequest_Completed [where net = net and it = it, OF t] Let_def
          statsAfterAttempt_def split: sum.splits bool.splits option.splits)
  then show ?thesis
    by (simp add: statsAfterAttempt_def countRateLimitError_def)
qed


theorem C4_rate_limit_counted_witness:
  "rateLimitErrors
     (snd (snd (makeRequest sample_env (always_status (Some 429) ''{}'')
                  (sample_options\<lparr>retryOnStatusCodes := Some []\<rparr>) (0, sample_stats)))) 0
     = Some 1"
proof -
  have n: "always_status (Some 429) ''{}'' (Suc 0)
             = AxiosResolve (Some (IncomingMessage (Some 429))) ''{}''"
    by (simp add: always_status_def)
  from C4_rate_limit_counted [where net = "always_status (Some 429) ''{}''" and it = 0
      and env = sample_env and opts = "sample_options\<lparr>retryOnStatusCodes := Some []\<rparr>"
      and st = sample_stats, OF n]
  show ?thesis by (simp add: sample_stats_def)
qed

subsection \<open>Bodies that fail to parse\<close>

text \<open>
  C2, as stated, at a response with status 404 and the body \<^verbatim>\<open><html>\<close> under the
  json flag and the default retryable set: the body does not parse, and the attempt is
  not retryable; it throws the terminal error built from the response, and the call,
  which allows three attempts, fails with that error after a single request.
\<close>

theorem C2_unparsable_404_is_terminal_counterexample:
  "json sample_options
   \<and> JSON_parse sample_env ''<html>''
       = Inl (JsError ''SyntaxError'' ''Unexpected token < in JSON at position 0'')
   \<and> expBackoffMaxRepeats sample_options = Some 3
   \<and> fst (makeRequest sample_env (always_status (Some 404) ''<html>'') sample_options
             (0, sample_stats))
       = Inl (Thrown (ClientError
           \<lparr>type = REQUEST_FAILED_ERROR_TYPE_V2, message = ''Server request failed.'',
            details = ResponseDetails (Some 404) (JStr ''/v2/acts'') (JStr ''GET''),
            originalError = None\<rparr>))
   \<and> call_inner sample_env (always_status (Some 404) ''<html>'') sample_stats sample_options
       = (Inl (ClientError
           \<lparr>type = REQUEST_FAILED_ERROR_TYPE_V2, message = ''Server request failed.'',
            details = ResponseDetails (Some 404) (JStr ''/v2/acts'') (JStr ''GET''),
            originalError = None\<rparr>),
          \<lparr>calls = 1, requests = 1, rateLimitErrors = Map.empty\<rparr>)"
  by (simp add: call_inner_def retryWithExpBackoff.simps makeRequest_def tryRequest_def
        terminalStatus_def Let_def sample_defs RATE_LIMIT_EXCEEDED_STATUS_CODE_def)

text \<open>
  C2, amended: for every response with the json flag set and a non-empty body that fails
  to parse as JSON, the attempt is never returned as a success, whatever the status
  code; it is classified retryable, throwing a request-failed error that wraps the parse
  error, unless the status code lies in [300, 500) and is not in the retryable-status
  set, in which case it fails at once with the error built from the raw body.
\<close>

theorem C2_unparsable_body_never_succeeds:
  assumes "net (Suc it) = AxiosResolve (Some response) d"
      and "json opts" and "d \<noteq> []" and "JSON_parse env d = Inl perr"
      and "retryOnStatusCodes opts = Some cs"
  shows "fst (makeRequest env net opts (it, st))
           = (if (case statusCode response of
                    None \<Rightarrow> False | Some s \<Rightarrow> 300 \<le> s \<and> s < 500 \<and> s \<notin> set cs)
              then Inl (Thrown (ClientError
                     (newApifyClientErrorFromResponse env (JStr d) (isApiV1 opts)
                        (ResponseDetails (statusCode response) (url opts) (method opts)))))
              else Inl (RetryableError
                     (requestFailedError opts (Suc it) (statusCode response) (Some perr))))
       \<and> type (requestFailedError opts (Suc it) (statusCode response) (Some perr))
           = (if isApiV1 opts then REQUEST_FAILED_ERROR_TYPE_V1 else REQUEST_FAILED_ERROR_TYPE_V2)
       \<and> (\<forall>v. fst (makeRequest env net opts (it, st)) \<noteq> Inr v)"
proof -
  have t: "tryRequest env opts (net (Suc it))
             = Completed (statusCode response) (Some (JStr d)) (Some perr)"
    using assms(1-4) by (simp add: tryRequest_response)
  have ts: "terminalStatus env opts (statusCode response)
              = Inr (case statusCode response of
                       None \<Rightarrow> False | Some s \<Rightarrow> 300 \<le> s \<and> s < 500 \<and> s \<notin> set cs)"
    using assms(5) by (rule terminalStatus_Some)
  show ?thesis
    by (simp add: makeRequest_Completed [where net = net and it = it, OF t] ts Let_def
          requestFailedError_def)
qed

theorem C2_unparsable_body_never_succeeds_witness:
  "fst (makeRequest sample_env (always_status (Some 200) ''<html>'') sample_options
          (0, sample_stats))
     = Inl (RetryableError
         \<lparr>type = REQUEST_FAILED_ERROR_TYPE_V2,
          message = ''API request failed on the first try'',
          details = RequestDetails (JStr ''/v2/acts'') (JStr ''GET'') JUndefined False
                      (ErrorMessage ''Unexpected token < in JSON at position 0'') (Some 200) 1,
          originalError = Some (JsError ''SyntaxError'' ''Unexpected token < in JSON at position 0'')\<rparr>)"
proof -
  have n: "always_status (Some 200) ''<html>'' (Suc 0)
             = AxiosResolve (Some (IncomingMessage (Some 200))) ''<html>''"
    by (simp add: always_status_def)
  have j: "json sample_options" and r: "retryOnStatusCodes sample_options = Some [429]"
    by (simp_all add: sample_options_def)
  have d: "''<html>'' \<noteq> []" by simp
  have p: "JSON_parse sample_env ''<html>''
             = Inl (JsError ''SyntaxError'' ''Unexpected token < in JSON at position 0'')"
    by (simp add: sample_env_def sample_JSON_parse_def)
  from C2_unparsable_body_never_succeeds [where net = "always_status (Some 200) ''<html>''" and it = 0
      and env = sample_env and opts = sample_options and st = sample_stats, OF n j d p r]
  show ?thesis
    by (simp add: requestFailedError_def sample_options_def)
qed

subsection \<open>A response without a status code\<close>

text \<open>
  C10, as stated, at a response without a status code and the body \<^verbatim>\<open><html>\<close> under
  the json flag: the exchange completed, the body does not parse, and the attempt is
  retryable; the call fails with a request-failed error after all three attempts.
\<close>

theorem C10_no_status_unparsable_body_counterexample:
  "fst (makeRequest sample_env (always_status None ''<html>'') sample_options (0, sample_stats))
     = Inl (RetryableError
         \<lparr>type = REQUEST_FAILED_ERROR_TYPE_V2,
          message = ''API request failed on the first try'',
          details = RequestDetails (JStr ''/v2/acts'') (JStr ''GET'') JUndefined False
                      (ErrorMessage ''Unexpected token < in JSON at position 0'') None 1,
          originalError = Some (JsError ''SyntaxError'' ''Unexpected token < in JSON at position 0'')\<rparr>)
   \<and> call_inner sample_env (always_status None ''<html>'') sample_stats sample_options
     = (Inl (ClientError
         \<lparr>type = REQUEST_FAILED_ERROR_TYPE_V2,
          message = ''API request failed on retry number 2'',
          details = RequestDetails (JStr ''/v2/acts'') (JStr ''GET'') JUndefined False
                      (ErrorMessage ''Unexpected token < in JSON at position 0'') None 3,
          originalError = Some (JsError ''SyntaxError'' ''Unexpected token < in JSON at position 0'')\<rparr>),
        \<lparr>calls = 1, requests = 3, rateLimitErrors = Map.empty\<rparr>)"
  by (simp add: call_inner_def retryWithExpBackoff.simps makeRequest_def tryRequest_def
        terminalStatus_def Let_def sample_defs requestFailedError_def show_nat.simps
        digit_char_def)

text \<open>
  C10, amended: for every attempt whose exchange yields a response object with an
  absent or zero status code and a body that, when the json flag is set and the body is
  not empty, parses as JSON, the attempt and the call resolve with the body (parsed
  under the json flag) or the full response, exactly as an attempt with a status code
  below 300 and the same body does; the requests counter moves by one and nothing else
  changes.
\<close>

theorem C10_falsy_status_succeeds:
  assumes "net (Suc it) = AxiosResolve (Some response) d"
      and "statusCode response = None \<or> statusCode response = Some 0"
      and "json opts \<and> d \<noteq> [] \<longrightarrow> (\<exists>v. JSON_parse env d = Inr v)"
      and "b = (if json opts \<and> d \<noteq> []
                then (case JSON_parse env d of Inr v \<Rightarrow> v | Inl e \<Rightarrow> JStr d)
                else JStr d)"
  shows "makeRequest env net opts (it, st)
           = (Inr (if resolveWithFullResponse opts then FullResponse response b else BodyOnly b),
              (Suc it, st\<lparr>requests := requests st + 1\<rparr>))
       \<and> retryWithExpBackoff (makeRequest env net opts) maxRepeats millis i (it, st)
           = (Inr (if resolveWithFullResponse opts then FullResponse response b else BodyOnly b),
              (Suc it, st\<lparr>requests := requests st + 1\<rparr>))
       \<and> (\<forall>net' response' s'.
             net' (Suc it) = AxiosResolve (Some response') d
             \<and> statusCode response' = Some s' \<and> s' < 300 \<longrightarrow>
             makeRequest env net' opts (it, st)
               = (Inr (if resolveWithFullResponse opts then FullResponse response' b
                       else BodyOnly b),
                  (Suc it, st\<lparr>requests := requests st + 1\<rparr>)))"
proof -
  have p: "(if json opts \<and> d \<noteq> [] then JSON_parse env d else Inr (JStr d)) = Inr b"
    using assms(3,4) by auto
  have ok: "\<And>r. (case statusCode r of None \<Rightarrow> True | Some s \<Rightarrow> s < 300) \<Longrightarrow>
      tryRequest env opts (AxiosResolve (Some r) d)
        = Returned (if resolveWithFullResponse opts then FullResponse r b else BodyOnly b)"
    by (simp add: tryRequest_response p)
  have t: "tryRequest env opts (net (Suc it))
        = Returned (if resolveWithFullResponse opts then FullResponse response b else BodyOnly b)"
    using assms(1,2) ok [of response] by auto
  have m: "makeRequest env net opts (it, st)
           = (Inr (if resolveWithFullResponse opts then FullResponse response b else BodyOnly b),
              (Suc it, st\<lparr>requests := requests st + 1\<rparr>))"
    by (rule makeRequest_Returned [where net = net and it = it, OF t])
  have l: "retryWithExpBackoff (makeRequest env net opts) maxRepeats millis i (it, st)
           = (Inr (if resolveWithFullResponse opts then FullResponse response b else BodyOnly b),
              (Suc it, st\<lparr>requests := requests st + 1\<rparr>))"
    using m by (rule retry_Returned)
  have o: "\<forall>net' response' s'.
             net' (Suc it) = AxiosResolve (Some response') d
             \<and> statusCode response' = Some s' \<and> s' < 300 \<longrightarrow>
             makeRequest env net' opts (it, st)
               = (Inr (if resolveWithFullResponse opts then FullResponse response' b
                       else BodyOnly b),
                  (Suc it, st\<lparr>requests := requests st + 1\<rparr>))"
  proof (intro allI impI)
    fix net' response' s'
    assume h: "net' (Suc it) = AxiosResolve (Some response') d
             \<and> statusCode response' = Some s' \<and> s' < 300"
    then have "tryRequest env opts (net' (Suc it))
        = Returned (if resolveWithFullResponse opts then FullResponse response' b else BodyOnly b)"
      using ok [of response'] by auto
    then show "makeRequest env net' opts (it, st)
               = (Inr (if resolveWithFullResponse opts then FullResponse response' b
                       else BodyOnly b),
                  (Suc it, st\<lparr>requests := requests st + 1\<rparr>))"
      by (rule makeRequest_Returned [where net = net' and it = it])
  qed
  from m l o show ?thesis by blast
qed

theorem C10_falsy_status_succeeds_witness:
  "makeRequest sample_env (always_status None ''{}'') sample_options (0, sample_stats)
     = (Inr (BodyOnly (JObj [])), (Suc 0, sample_stats\<lparr>requests := 1\<rparr>))
   \<and> makeRequest sample_env (always_status (Some 0) ''{}'') sample_options (0, sample_stats)
     = (Inr (BodyOnly (JObj [])), (Suc 0, sample_stats\<lparr>requests := 1\<rparr>))"
proof -
  have p: "json sample_options \<and> ''{}'' \<noteq> [] \<longrightarrow> (\<exists>v. JSON_parse sample_env ''{}'' = Inr v)"
    by (simp add: sample_env_def sample_JSON_parse_def)
  have b: "JObj [] = (if json sample_options \<and> ''{}'' \<noteq> []
                then (case JSON_parse sample_env ''{}'' of Inr v \<Rightarrow> v | Inl e \<Rightarrow> JStr ''{}'')
                else JStr ''{}'')"
    by (simp add: sample_env_def sample_JSON_parse_def sample_options_def)
  have n1: "always_status None ''{}'' (Suc 0) = AxiosResolve (Some (IncomingMessage None)) ''{}''"
    and n2: "always_status (Some 0) ''{}'' (Suc 0)
               = AxiosResolve (Some (IncomingMessage (Some 0))) ''{}''"
    by (simp_all add: always_status_def)
  have s1: "statusCode (IncomingMessage None) = None
              \<or> statusCode (IncomingMessage None) = Some 0"
    and s2: "statusCode (IncomingMessage (Some 0)) = None
              \<or> statusCode (IncomingMessage (Some 0)) = Some 0"
    by simp_all
  from C10_falsy_status_succeeds [where net = "always_status None ''{}''" and it = 0 and env = sample_env
      and opts = sample_options and st = sample_stats, OF n1 s1 p b]
    C10_falsy_status_succeeds [where net = "always_status (Some 0) ''{}''" and it = 0 and env = sample_env
      and opts = sample_options and st = sample_stats, OF n2 s2 p b]
  show ?thesis
    by (simp add: sample_options_def sample_stats_def)
qed

section \<open>Properties of the call\<close>

subsection \<open>Invalid options\<close>

text \<open>
  C9: for every call whose merged options the normalizer rejects, whatever the network
  would answer, the call fails with that invalid-parameter error and the statistics are
  the ones from before the call: neither the calls counter nor the requests counter has
  moved.
\<close>

theorem C9_invalid_options_touch_nothing:
  assumes "validateAndNormalizeOptions (spread (spread empty_options defaultOptions) callOptions) = Inl e"
  shows "call env net st defaultOptions callOptions = (Inl (ClientError e), st)
       \<and> (type e = INVALID_PARAMETER_ERROR_TYPE_V1 \<or> type e = INVALID_PARAMETER_ERROR_TYPE_V2)
       \<and> calls (snd (call env net st defaultOptions callOptions)) = calls st
       \<and> requests (snd (call env net st defaultOptions callOptions)) = requests st"
  using assms validate_error_type [OF assms] by (simp add: call_def)


theorem C9_invalid_options_touch_nothing_witness:
  "call sample_env (always_status (Some 200) ''{}'') sample_stats
      [Set_baseUrl (JStr ''https://api.apify.com''), Set_authRequired True]
      [Set_method (JStr ''GET''), Set_url (JStr ''/v2/acts'')]
     = (Inl (ClientError \<lparr>type = INVALID_PARAMETER_ERROR_TYPE_V2,
                           message = token_required_message,
                           details = NoDetails, originalError = None\<rparr>),
        sample_stats)"
proof -
  have v: "validateAndNormalizeOptions
             (spread (spread empty_options
                        [Set_baseUrl (JStr ''https://api.apify.com''), Set_authRequired True])
                [Set_method (JStr ''GET''), Set_url (JStr ''/v2/acts'')])
           = Inl \<lparr>type = INVALID_PARAMETER_ERROR_TYPE_V2, message = token_required_message,
                  details = NoDetails, originalError = None\<rparr>"
    by (simp add: spread_def empty_options_def validateAndNormalizeOptions_def
          ALLOWED_HTTP_METHODS_def toUpperCase_def toUpperCase_char_def)
  from C9_invalid_options_touch_nothing [OF v] show ?thesis by simp
qed

end
